theory Spec2Isabelle
  imports Complex_Main "HOL-Library.Multiset"
begin

section \<open>Python values and text formatting\<close>

text \<open>
  The monitor (\<^verbatim>\<open>vm_trigger.py\<close>) and the geocoder (\<^verbatim>\<open>geolocation.py\<close>) are Python
  scripts. Python's \<^verbatim>\<open>int\<close> is \<^typ>\<open>int\<close>, a \<^verbatim>\<open>str\<close> is a \<^typ>\<open>string\<close> holding the UTF-8
  bytes of the text, \<^verbatim>\<open>None\<close> in an optional position is \<^term>\<open>None\<close>.
\<close>

fun str_nat :: "nat \<Rightarrow> string" where
  "str_nat n =
     (if n < 10 then [''0123456789'' ! n]
      else str_nat (n div 10) @ [''0123456789'' ! (n mod 10)])"

declare str_nat.simps [simp del]

definition str_int :: "int \<Rightarrow> string" where
  \<comment> \<open>\<^verbatim>\<open>str(i)\<close> and \<^verbatim>\<open>f"{i}"\<close> for a Python int\<close>
  "str_int i = (if i < 0 then ''-'' @ str_nat (nat (- i)) else str_nat (nat i))"

definition fmt_port :: "int option \<Rightarrow> string" where
  \<comment> \<open>\<^verbatim>\<open>f"{port}"\<close> where \<^verbatim>\<open>port\<close> is an int or \<^verbatim>\<open>None\<close>\<close>
  "fmt_port p = (case p of None \<Rightarrow> ''None'' | Some i \<Rightarrow> str_int i)"

definition fmt_str :: "string option \<Rightarrow> string" where
  \<comment> \<open>\<^verbatim>\<open>f"{s}"\<close> where \<^verbatim>\<open>s\<close> is a str or \<^verbatim>\<open>None\<close>\<close>
  "fmt_str s = (case s of None \<Rightarrow> ''None'' | Some t \<Rightarrow> t)"

definition lower_char :: "char \<Rightarrow> char" where
  "lower_char c =
     (case map_of (zip ''ABCDEFGHIJKLMNOPQRSTUVWXYZ'' ''abcdefghijklmnopqrstuvwxyz'') c of
        None \<Rightarrow> c
      | Some l \<Rightarrow> l)"

definition lower :: "string \<Rightarrow> string" where
  \<comment> \<open>\<^verbatim>\<open>s.lower()\<close> on ASCII text\<close>
  "lower s = map lower_char s"

definition newline :: string where
  "newline = [CHR 0x0A]"

text \<open>The pictographs of the source, as their UTF-8 bytes.\<close>

definition hourglass :: string where
  "hourglass = [CHR 0xE2, CHR 0x8F, CHR 0xB3]"

definition check_mark :: string where
  "check_mark = [CHR 0xE2, CHR 0x9C, CHR 0x85]"

definition cross_mark :: string where
  "cross_mark = [CHR 0xE2, CHR 0x9D, CHR 0x8C]"

definition red_circle :: string where
  "red_circle = [CHR 0xF0, CHR 0x9F, CHR 0x94, CHR 0xB4]"

definition stopwatch :: string where
  "stopwatch = [CHR 0xE2, CHR 0x8F, CHR 0xB1, CHR 0xEF, CHR 0xB8, CHR 0x8F]"

definition warning_sign :: string where
  "warning_sign = [CHR 0xE2, CHR 0x9A, CHR 0xA0, CHR 0xEF, CHR 0xB8, CHR 0x8F]"

definition rotating_light :: string where
  "rotating_light = [CHR 0xF0, CHR 0x9F, CHR 0x9A, CHR 0xA8]"

definition high_voltage :: string where
  "high_voltage = [CHR 0xE2, CHR 0x9A, CHR 0xA1]"

definition bar_chart :: string where
  "bar_chart = [CHR 0xF0, CHR 0x9F, CHR 0x93, CHR 0x8A]"

section \<open>The outside world\<close>

text \<open>
  Sockets, HTTP, the ping process, the chat webhook and the clock are outside the program.
  Each is a field of the record \<open>world\<close>: a function from what the program hands to the
  library call to what the call gives back. A library call that raises gives back a
  constructor of its own, so that every \<^verbatim>\<open>except\<close> of the source is a branch of the model.
\<close>

datatype sock_outcome =
    ConnectEx int  \<comment> \<open>\<^verbatim>\<open>sock.connect_ex\<close> returned this error indicator, 0 for success\<close>
  | SockRaised     \<comment> \<open>creating, configuring, connecting or closing the socket raised\<close>

datatype http_outcome =
    Response int   \<comment> \<open>\<^verbatim>\<open>requests.get\<close> returned a response with this \<^verbatim>\<open>status_code\<close>\<close>
  | GetRaised      \<comment> \<open>\<^verbatim>\<open>requests.get\<close> raised\<close>

datatype proc_outcome =
    Completed int  \<comment> \<open>the child process ran and exited with this \<^verbatim>\<open>returncode\<close>\<close>
  | RunRaised      \<comment> \<open>the process could not be started, or ran over the timeout\<close>

datatype post_outcome =
    Posted int               \<comment> \<open>\<^verbatim>\<open>requests.post\<close> returned a response with this \<^verbatim>\<open>status_code\<close>\<close>
  | RequestException string  \<comment> \<open>\<^verbatim>\<open>requests.post\<close> raised; the text is \<^verbatim>\<open>str(e)\<close>\<close>

text \<open>
  A payload is the dict that is posted as JSON: its \<^verbatim>\<open>text\<close> and its \<^verbatim>\<open>blocks\<close>. A block
  is kept by its kind and the texts it shows.
\<close>

datatype block =
    Header string
  | SectionText string
  | SectionFields "string list"
  | Divider
  | Context "string list"

record slack_data =
  payload_text :: string
  payload_blocks :: "block list"

datatype event =
    TcpConnect string int int  \<comment> \<open>address, port, timeout\<close>
  | HttpGet string             \<comment> \<open>URL\<close>
  | Spawn "string list"        \<comment> \<open>command line\<close>
  | Print string
  | SlackPost string slack_data  \<comment> \<open>webhook URL, payload\<close>

record world =
  tcp_connect :: "string \<Rightarrow> int \<Rightarrow> int \<Rightarrow> sock_outcome"
  requests_get :: "string \<Rightarrow> http_outcome"
  platform_system :: string
  run_process :: "string list \<Rightarrow> proc_outcome"
  requests_post :: "string \<Rightarrow> slack_data \<Rightarrow> post_outcome"
  worker_fault :: "string \<Rightarrow> string option"
  time_time :: rat
  time_strftime :: "string \<Rightarrow> string"
  time_ctime :: string

text \<open>
  \<open>worker_fault w vm_name\<close> is the exception, if any, that escapes the worker thread
  checking \<open>vm_name\<close> (its text is \<^verbatim>\<open>str(e)\<close>), such as a failed import in
  \<^verbatim>\<open>check_http_service\<close> or a console that cannot encode what \<^verbatim>\<open>check_single_vm\<close> prints;
  \<^verbatim>\<open>future.result()\<close> raises it again in the main thread. The clock is read as one value
  for the whole run.
\<close>

record config =
  SLACK_WEBHOOK_URL :: string
  VMS_TO_MONITOR :: "(string \<times> string) list"
  COMMON_PORTS :: "int list"

text \<open>
  \<^verbatim>\<open>config.py\<close> is not part of the sources; its three values are the parameters of the
  model. \<open>VMS_TO_MONITOR\<close> is a dict, given by its items in iteration order.
\<close>

type_synonym 'a traced = "'a \<times> event list"

section \<open>The probes\<close>

definition check_tcp_port :: "world \<Rightarrow> string \<Rightarrow> int \<Rightarrow> int \<Rightarrow> bool traced" where
  "check_tcp_port w ip_address port timeout =
     (case tcp_connect w ip_address port timeout of
        ConnectEx result \<Rightarrow> result = 0
      | SockRaised \<Rightarrow> False,
      [TcpConnect ip_address port timeout])"

fun check_any_port_open :: "world \<Rightarrow> string \<Rightarrow> int list \<Rightarrow> (bool \<times> int option) traced" where
  "check_any_port_open w ip_address [] = ((False, None), [])"
| "check_any_port_open w ip_address (port # ports) =
     (case check_tcp_port w ip_address port 2 of
        (True, t) \<Rightarrow> ((True, Some port), t)
      | (False, t) \<Rightarrow> apsnd ((@) t) (check_any_port_open w ip_address ports))"

definition request_url :: "string \<Rightarrow> string \<Rightarrow> int \<Rightarrow> string" where
  \<comment> \<open>\<^verbatim>\<open>f"{protocol}://{ip_address}:{port}"\<close>\<close>
  "request_url protocol ip_address port = protocol @ ''://'' @ ip_address @ '':'' @ str_int port"

fun http_port_loop :: "world \<Rightarrow> string \<Rightarrow> string \<Rightarrow> int list \<Rightarrow> string option traced" where
  "http_port_loop w ip_address protocol [] = (None, [])"
| "http_port_loop w ip_address protocol (port # ports) =
     (case requests_get w (request_url protocol ip_address port) of
        Response status_code \<Rightarrow>
          if status_code < 500
          then (Some (protocol @ '':'' @ str_int port),
                [HttpGet (request_url protocol ip_address port)])
          else apsnd ((#) (HttpGet (request_url protocol ip_address port)))
                 (http_port_loop w ip_address protocol ports)
      | GetRaised \<Rightarrow>
          apsnd ((#) (HttpGet (request_url protocol ip_address port)))
            (http_port_loop w ip_address protocol ports))"

fun http_protocol_loop :: "world \<Rightarrow> string \<Rightarrow> string list \<Rightarrow> (bool \<times> string option) traced" where
  "http_protocol_loop w ip_address [] = ((False, None), [])"
| "http_protocol_loop w ip_address (protocol # protocols) =
     (case http_port_loop w ip_address protocol [80, 443, 8080, 3000, 8000] of
        (Some service, t) \<Rightarrow> ((True, Some service), t)
      | (None, t) \<Rightarrow> apsnd ((@) t) (http_protocol_loop w ip_address protocols))"

definition check_http_service :: "world \<Rightarrow> string \<Rightarrow> (bool \<times> string option) traced" where
  "check_http_service w ip_address = http_protocol_loop w ip_address [''http'', ''https'']"

text \<open>
  \<^verbatim>\<open>subprocess.run\<close> belongs to Python's standard library. Its first step is an argument
  check: with \<^verbatim>\<open>capture_output=True\<close>, a \<^verbatim>\<open>stdout\<close> or \<^verbatim>\<open>stderr\<close> argument other than
  \<^verbatim>\<open>None\<close> raises \<^verbatim>\<open>ValueError\<close> ("stdout and stderr arguments may not be used with
  capture_output.") before any process is started. Otherwise the command runs.
\<close>

datatype std_stream = PIPE | DEVNULL

record run_kwargs =
  kw_capture_output :: bool
  kw_text :: bool
  kw_timeout :: int
  kw_stdout :: "std_stream option"
  kw_stderr :: "std_stream option"

datatype run_result = CompletedProcess int | ValueError | SubprocessError

definition subprocess_run :: "world \<Rightarrow> string list \<Rightarrow> run_kwargs \<Rightarrow> run_result traced" where
  "subprocess_run w popenargs kw =
     (if kw_capture_output kw \<and> (kw_stdout kw \<noteq> None \<or> kw_stderr kw \<noteq> None)
      then (ValueError, [])
      else (case run_process w popenargs of
              Completed returncode \<Rightarrow> CompletedProcess returncode
            | RunRaised \<Rightarrow> SubprocessError,
            [Spawn popenargs]))"

definition ping_command :: "world \<Rightarrow> string \<Rightarrow> string list" where
  "ping_command w ip_address =
     (if lower (platform_system w) = ''windows''
      then [''ping'', ''-n'', ''2'', ''-w'', ''3000'', ip_address]
      else [''ping'', ''-c'', ''2'', ''-W'', ''3'', ip_address])"

definition check_vm_status_ping :: "world \<Rightarrow> string \<Rightarrow> bool traced" where
  "check_vm_status_ping w ip_address =
     (case subprocess_run w (ping_command w ip_address)
             \<lparr>kw_capture_output = True, kw_text = True, kw_timeout = 10,
              kw_stdout = Some DEVNULL, kw_stderr = Some DEVNULL\<rparr> of
        (CompletedProcess returncode, t) \<Rightarrow> (returncode = 0, t)
      | (_, t) \<Rightarrow> (False, t))"

section \<open>The liveness classifier\<close>

definition comprehensive_server_check :: "config \<Rightarrow> world \<Rightarrow> string \<Rightarrow> (string \<times> string) traced" where
  "comprehensive_server_check cfg w ip_address =
     (case check_any_port_open w ip_address (COMMON_PORTS cfg) of
        ((True, port), t1) \<Rightarrow> ((''UP'', ''TCP Port '' @ fmt_port port), t1)
      | ((False, _), t1) \<Rightarrow>
          (case check_http_service w ip_address of
             ((True, service), t2) \<Rightarrow> ((''UP'', ''HTTP '' @ fmt_str service), t1 @ t2)
           | ((False, _), t2) \<Rightarrow>
               (case check_vm_status_ping w ip_address of
                  (True, t3) \<Rightarrow> ((''UP'', ''ICMP Ping''), t1 @ t2 @ t3)
                | (False, t3) \<Rightarrow> ((''DOWN'', ''All checks failed''), t1 @ t2 @ t3))))"

section \<open>Checking one server\<close>

text \<open>
  The dict that \<^verbatim>\<open>check_single_vm\<close> returns is a record; the field for the key
  \<^verbatim>\<open>"status"\<close> is \<open>r_status\<close>, and so on for the other keys.
\<close>

record check_result =
  r_name :: string
  r_ip :: string
  r_status :: string
  r_method :: string
  r_timestamp :: rat

definition check_single_vm :: "config \<Rightarrow> world \<Rightarrow> string \<Rightarrow> string \<Rightarrow> check_result traced" where
  "check_single_vm cfg w vm_name ip_address =
     (case comprehensive_server_check cfg w ip_address of
        ((status, method), t) \<Rightarrow>
          (\<lparr>r_name = vm_name, r_ip = ip_address, r_status = status, r_method = method,
            r_timestamp = time_time w\<rparr>,
           [Print (hourglass @ '' Checking '' @ vm_name @ '' ('' @ ip_address @ '')...'')]
           @ t
           @ [Print (''   '' @ (if status = ''UP'' then check_mark else cross_mark) @ '' ''
                     @ vm_name @ '': '' @ status @ '' ('' @ method @ '')'')]))"

definition future_result :: "config \<Rightarrow> world \<Rightarrow> string \<times> string \<Rightarrow> string + check_result" where
  \<comment> \<open>\<^verbatim>\<open>future.result()\<close> for the future of \<^verbatim>\<open>executor.submit(check_single_vm, vm_name, ip_addr)\<close>\<close>
  "future_result cfg w future =
     (case worker_fault w (fst future) of
        Some e \<Rightarrow> Inl e
      | None \<Rightarrow> Inr (fst (check_single_vm cfg w (fst future) (snd future))))"

section \<open>Alerts\<close>

definition int_of_float :: "rat \<Rightarrow> int" where
  \<comment> \<open>\<^verbatim>\<open>int(x)\<close> truncates towards zero\<close>
  "int_of_float x = (if x < 0 then \<lceil>x\<rceil> else \<lfloor>x\<rfloor>)"

definition status_emoji :: "string \<Rightarrow> string" where
  \<comment> \<open>\<^verbatim>\<open>status_emoji.get(status, cross mark)\<close>\<close>
  "status_emoji status =
     (if status = ''DOWN'' then red_circle
      else if status = ''TIMEOUT'' then stopwatch
      else if status = ''ERROR'' then warning_sign
      else cross_mark)"

definition method_text :: "string option \<Rightarrow> string" where
  "method_text method =
     (if method = Some ''All checks failed''
      then newline @ ''*Check Method:* All methods tried (TCP ports, HTTP, Ping)''
      else newline @ ''*Last Successful Check:* '' @ fmt_str method)"

definition alert_data :: "world \<Rightarrow> string \<Rightarrow> string \<Rightarrow> string \<Rightarrow> string option \<Rightarrow> slack_data" where
  "alert_data w vm_name ip_address status method =
     \<lparr>payload_text = status_emoji status @ '' ALERT: '' @ vm_name @ '' is '' @ status @ ''!'',
      payload_blocks =
        [Header (rotating_light @ '' SERVER DOWN ALERT''),
         SectionFields
           [''*Server Name:*'' @ newline @ ''`'' @ vm_name @ ''`'',
            ''*IP Address:*'' @ newline @ ''`'' @ ip_address @ ''`''],
         SectionFields
           [''*Status:*'' @ newline @ status_emoji status @ '' *'' @ status @ ''*'',
            ''*Detected At:*'' @ newline @ ''<!date^'' @ str_int (int_of_float (time_time w))
              @ ''^{time} {date_short}|'' @ time_strftime w ''%Y-%m-%d %H:%M:%S'' @ ''>''],
         Divider,
         Context
           [high_voltage
              @ '' *Action Required:* Server is not responding to any connectivity checks.''
              @ method_text method]]\<rparr>"

definition send_slack_notification ::
  "config \<Rightarrow> world \<Rightarrow> string \<Rightarrow> string \<Rightarrow> string \<Rightarrow> string option \<Rightarrow> bool traced" where
  "send_slack_notification cfg w vm_name ip_address status method =
     (let slack_data = alert_data w vm_name ip_address status method in
      case requests_post w (SLACK_WEBHOOK_URL cfg) slack_data of
        Posted status_code \<Rightarrow>
          if status_code = 200
          then (True,
                [SlackPost (SLACK_WEBHOOK_URL cfg) slack_data,
                 Print (''   '' @ check_mark @ '' Slack notification sent for '' @ vm_name)])
          else (False,
                [SlackPost (SLACK_WEBHOOK_URL cfg) slack_data,
                 Print (''   '' @ cross_mark @ '' Slack notification failed. Status: ''
                        @ str_int status_code)])
      | RequestException e \<Rightarrow>
          (False,
           [SlackPost (SLACK_WEBHOOK_URL cfg) slack_data,
            Print (''   '' @ cross_mark @ '' Error sending Slack notification: '' @ e)]))"

definition server_field :: "check_result \<Rightarrow> string" where
  "server_field server =
     ''*'' @ r_name server @ ''*'' @ newline @ ''`'' @ r_ip server @ ''` - _'' @ r_status server @ ''_''"

definition summary_data :: "world \<Rightarrow> check_result list \<Rightarrow> int \<Rightarrow> slack_data" where
  "summary_data w down_servers total_servers =
     (let down_count = int (length down_servers);
          server_fields = map server_field down_servers
      in \<lparr>payload_text = warning_sign @ '' MONITORING SUMMARY: '' @ str_int down_count @ ''/''
             @ str_int total_servers @ '' servers are DOWN'',
          payload_blocks =
            [Header (bar_chart @ '' Monitoring Summary Report''),
             SectionText (''*'' @ str_int down_count @ '' out of '' @ str_int total_servers
                          @ '' servers are currently DOWN* '' @ red_circle),
             Divider,
             SectionFields (take 10 server_fields),
             Context
               [''Scan completed at <!date^'' @ str_int (int_of_float (time_time w))
                  @ ''^{time} {date_long}|'' @ time_ctime w @ ''>'']]\<rparr>)"

definition send_summary_notification ::
  "config \<Rightarrow> world \<Rightarrow> check_result list \<Rightarrow> int \<Rightarrow> event list" where
  "send_summary_notification cfg w down_servers total_servers =
     (if down_servers = [] then []
      else
        (let slack_data = summary_data w down_servers total_servers in
         case requests_post w (SLACK_WEBHOOK_URL cfg) slack_data of
           Posted status_code \<Rightarrow>
             if status_code = 200
             then [SlackPost (SLACK_WEBHOOK_URL cfg) slack_data,
                   Print (newline @ check_mark @ '' Summary report sent to Slack'')]
             else [SlackPost (SLACK_WEBHOOK_URL cfg) slack_data]
         | RequestException e \<Rightarrow>
             [SlackPost (SLACK_WEBHOOK_URL cfg) slack_data,
              Print (newline @ cross_mark @ '' Error sending summary: '' @ e)]))"

section \<open>The run\<close>

text \<open>
  The main block submits one \<^verbatim>\<open>check_single_vm\<close> per item of \<open>VMS_TO_MONITOR\<close> to a
  pool of ten threads and handles the futures as \<^verbatim>\<open>as_completed\<close> hands them over. A
  future is the pair of arguments it was submitted with; \<^verbatim>\<open>future_to_vm[future]\<close> is its
  first component. The order of completion is an input of the model. The state of the loop
  is the two lists of the source and the effects: what the main thread posted and printed
  inside the loop; the banner and the totals that the main block prints around the loop
  are not recorded.
\<close>

datatype run_error = KeyError string

record run_state =
  results :: "check_result list"
  down_servers :: "check_result list"
  effects :: "event list"

fun collect :: "config \<Rightarrow> world \<Rightarrow> (string \<times> string) list \<Rightarrow> run_state \<Rightarrow> run_error + run_state" where
  "collect cfg w [] st = Inr st"
| "collect cfg w (future # futures) st =
     (let vm_name = fst future in
      case future_result cfg w future of
        Inr result \<Rightarrow>
          if r_status result \<noteq> ''UP''
          then collect cfg w futures
                 \<lparr>results = results st @ [result],
                  down_servers = down_servers st @ [result],
                  effects = effects st
                    @ snd (send_slack_notification cfg w (r_name result) (r_ip result)
                             (r_status result) (Some (r_method result)))\<rparr>
          else collect cfg w futures (st\<lparr>results := results st @ [result]\<rparr>)
      | Inl e \<Rightarrow>
          (case map_of (VMS_TO_MONITOR cfg) vm_name of
             None \<Rightarrow> Inl (KeyError vm_name)
           | Some ip_addr \<Rightarrow>
               (let error_result =
                      \<lparr>r_name = vm_name, r_ip = ip_addr, r_status = ''ERROR'', r_method = e,
                       r_timestamp = time_time w\<rparr>
                in collect cfg w futures
                     \<lparr>results = results st @ [error_result],
                      down_servers = down_servers st @ [error_result],
                      effects = effects st
                        @ [Print (''   '' @ warning_sign @ '' Exception checking '' @ vm_name
                                  @ '': '' @ e)]
                        @ snd (send_slack_notification cfg w vm_name ip_addr ''ERROR''
                                 (Some e))\<rparr>)))"

definition final_summary :: "config \<Rightarrow> world \<Rightarrow> run_state \<Rightarrow> event list" where
  "final_summary cfg w st =
     (let total_servers = int (length (results st)) in
      if down_servers st \<noteq> []
      then (if int (length (down_servers st)) \<ge> 1
            then send_summary_notification cfg w (down_servers st) total_servers
            else [])
      else [])"

definition main :: "config \<Rightarrow> world \<Rightarrow> (string \<times> string) list \<Rightarrow> run_error + run_state" where
  "main cfg w as_completed =
     (case collect cfg w as_completed \<lparr>results = [], down_servers = [], effects = []\<rparr> of
        Inl err \<Rightarrow> Inl err
      | Inr st \<Rightarrow> Inr (st\<lparr>effects := effects st @ final_summary cfg w st\<rparr>))"

section \<open>The geocoder: \<^verbatim>\<open>get_geolocation\<close>\<close>

text \<open>
  The value that \<^verbatim>\<open>response.json()\<close> returns is a tree of dicts, lists, strings, numbers,
  booleans and \<^verbatim>\<open>None\<close>. A dict is given by its items; its keys are strings. The
  geocoding request is a parameter: a function from the address to what
  \<^verbatim>\<open>requests.get(GEOCODING_URL, params=params, timeout=10)\<close> gives back.
\<close>

datatype json =
    JNull
  | JBool bool
  | JInt int
  | JFloat rat
  | JStr string
  | JList "json list"
  | JDict "(string \<times> json) list"

datatype py_exception =
    RequestError string  \<comment> \<open>an instance of \<^verbatim>\<open>requests.exceptions.RequestException\<close>\<close>
  | HTTPError int        \<comment> \<open>the one that \<^verbatim>\<open>raise_for_status\<close> raises, for this status code\<close>
  | LookupKeyError json
  | IndexError
  | TypeError
  | AttributeError
  | OtherError string    \<comment> \<open>any other instance of \<^verbatim>\<open>Exception\<close>\<close>

datatype api_outcome =
    ApiResponse int "py_exception + json"
      \<comment> \<open>a response: its \<^verbatim>\<open>status_code\<close>, and what \<^verbatim>\<open>response.json()\<close> gives or raises\<close>
  | ApiRaised py_exception
      \<comment> \<open>\<^verbatim>\<open>requests.get\<close> raised\<close>

datatype py_value =
    Json json
  | StrOf py_exception  \<comment> \<open>\<^verbatim>\<open>str(e)\<close>\<close>

definition then_do :: "'e + 'a \<Rightarrow> ('a \<Rightarrow> 'e + 'b) \<Rightarrow> 'e + 'b" where
  "then_do r f = (case r of Inl e \<Rightarrow> Inl e | Inr x \<Rightarrow> f x)"

fun getitem :: "json \<Rightarrow> string \<Rightarrow> py_exception + json" where
  "getitem (JDict items) key =
     (case map_of items key of None \<Rightarrow> Inl (LookupKeyError (JStr key)) | Some v \<Rightarrow> Inr v)"
| "getitem _ key = Inl TypeError"

fun getitem0 :: "json \<Rightarrow> py_exception + json" where
  "getitem0 (JList []) = Inl IndexError"
| "getitem0 (JList (x # xs)) = Inr x"
| "getitem0 (JStr []) = Inl IndexError"
| "getitem0 (JStr (c # cs)) = Inr (JStr [c])"
| "getitem0 (JDict items) = Inl (LookupKeyError (JInt 0))"
| "getitem0 _ = Inl TypeError"

fun dict_get :: "json \<Rightarrow> string \<Rightarrow> json \<Rightarrow> py_exception + json" where
  "dict_get (JDict items) key dflt =
     (case map_of items key of None \<Rightarrow> Inr dflt | Some v \<Rightarrow> Inr v)"
| "dict_get _ key dflt = Inl AttributeError"

text \<open>
  \<open>getitem obj key\<close> is \<^verbatim>\<open>obj[key]\<close> for a string key, \<open>getitem0 obj\<close> is \<^verbatim>\<open>obj[0]\<close>
  (on a string, its first character), \<open>dict_get obj key dflt\<close> is
  \<^verbatim>\<open>obj.get(key, default)\<close>, and \<open>truthy obj\<close> is the truth value Python gives \<^verbatim>\<open>obj\<close>.
\<close>

fun truthy :: "json \<Rightarrow> bool" where
  "truthy JNull = False"
| "truthy (JBool b) = b"
| "truthy (JInt i) = (i \<noteq> 0)"
| "truthy (JFloat x) = (x \<noteq> 0)"
| "truthy (JStr s) = (s \<noteq> [])"
| "truthy (JList xs) = (xs \<noteq> [])"
| "truthy (JDict items) = (items \<noteq> [])"

definition raise_for_status :: "int \<Rightarrow> py_exception + unit" where
  \<comment> \<open>\<^verbatim>\<open>response.raise_for_status()\<close> of the requests library: an \<^verbatim>\<open>HTTPError\<close> for a
      status code from 400 to 599\<close>
  "raise_for_status status_code =
     (if 400 \<le> status_code \<and> status_code < 600
      then Inl (HTTPError status_code) else Inr ())"

definition ok_with_results :: "json \<Rightarrow> py_exception + bool" where
  \<comment> \<open>\<^verbatim>\<open>data['status'] == 'OK' and data['results']\<close>, as a truth value\<close>
  "ok_with_results data =
     then_do (getitem data ''status'') (\<lambda>st.
       if st = JStr ''OK''
       then then_do (getitem data ''results'') (\<lambda>results. Inr (truthy results))
       else Inr False)"

definition found_dict :: "json \<Rightarrow> py_exception + (string \<times> py_value) list" where
  "found_dict data =
     then_do (getitem data ''results'') (\<lambda>results.
     then_do (getitem0 results) (\<lambda>first.
     then_do (getitem first ''geometry'') (\<lambda>geometry.
     then_do (getitem geometry ''location'') (\<lambda>location.
     then_do (getitem first ''formatted_address'') (\<lambda>formatted_address.
     then_do (getitem location ''lat'') (\<lambda>lat.
     then_do (getitem location ''lng'') (\<lambda>lng.
     then_do (dict_get first ''place_id'' (JStr [])) (\<lambda>place_id.
       Inr [(''latitude'', Json lat),
            (''longitude'', Json lng),
            (''formatted_address'', Json formatted_address),
            (''place_id'', Json place_id)]))))))))"

definition not_found_dict :: "json \<Rightarrow> py_exception + (string \<times> py_value) list" where
  "not_found_dict data =
     then_do (dict_get data ''status'' (JStr ''UNKNOWN'')) (\<lambda>error.
     then_do (dict_get data ''error_message'' (JStr ''No results found'')) (\<lambda>message.
       Inr [(''error'', Json error), (''message'', Json message)]))"

definition get_geolocation_try ::
  "(string \<Rightarrow> api_outcome) \<Rightarrow> string \<Rightarrow> py_exception + (string \<times> py_value) list" where
  \<comment> \<open>the body of the \<^verbatim>\<open>try\<close>\<close>
  "get_geolocation_try requests_get_geocode address =
     (case requests_get_geocode address of
        ApiRaised e \<Rightarrow> Inl e
      | ApiResponse status_code body \<Rightarrow>
          then_do (raise_for_status status_code) (\<lambda>_.
          then_do body (\<lambda>data.
          then_do (ok_with_results data) (\<lambda>ok.
            if ok then found_dict data else not_found_dict data))))"

fun is_request_exception :: "py_exception \<Rightarrow> bool" where
  "is_request_exception (RequestError e) = True"
| "is_request_exception (HTTPError status_code) = True"
| "is_request_exception e = False"

definition get_geolocation ::
  "(string \<Rightarrow> api_outcome) \<Rightarrow> string \<Rightarrow> (string \<times> py_value) list" where
  "get_geolocation requests_get_geocode address =
     (case get_geolocation_try requests_get_geocode address of
        Inr d \<Rightarrow> d
      | Inl e \<Rightarrow>
          if is_request_exception e
          then [(''error'', Json (JStr ''API_REQUEST_FAILED'')), (''message'', StrOf e)]
          else [(''error'', Json (JStr ''UNEXPECTED_ERROR'')), (''message'', StrOf e)])"

section \<open>Vocabulary of the properties\<close>

text \<open>
  \<open>attempts P xs\<close> is the part of \<open>xs\<close> that a loop walks through when it leaves at the
  first element satisfying \<open>P\<close>: everything up to and including that element, or all of
  \<open>xs\<close> when there is none.
\<close>

fun attempts :: "('a \<Rightarrow> bool) \<Rightarrow> 'a list \<Rightarrow> 'a list" where
  "attempts P [] = []"
| "attempts P (x # xs) = (if P x then [x] else x # attempts P xs)"

definition accepts :: "world \<Rightarrow> string \<Rightarrow> int \<Rightarrow> bool" where
  \<comment> \<open>the port accepts a connection within the probe's two seconds\<close>
  "accepts w ip_address port = (tcp_connect w ip_address port 2 = ConnectEx 0)"

definition responds :: "world \<Rightarrow> string \<Rightarrow> string \<times> int \<Rightarrow> bool" where
  \<comment> \<open>a GET to this scheme and port is answered with a status code below 500\<close>
  "responds w ip_address c =
     (case requests_get w (request_url (fst c) ip_address (snd c)) of
        Response status_code \<Rightarrow> status_code < 500
      | GetRaised \<Rightarrow> False)"

definition http_candidates :: "(string \<times> int) list" where
  "http_candidates =
     [(''http'', 80), (''http'', 443), (''http'', 8080), (''http'', 3000), (''http'', 8000),
      (''https'', 80), (''https'', 443), (''https'', 8080), (''https'', 3000), (''https'', 8000)]"

definition service_name :: "string \<times> int \<Rightarrow> string" where
  "service_name c = fst c @ '':'' @ str_int (snd c)"

definition get_event :: "string \<Rightarrow> string \<times> int \<Rightarrow> event" where
  "get_event ip_address c = HttpGet (request_url (fst c) ip_address (snd c))"

section \<open>Example worlds\<close>

text \<open>A world in which nothing answers: every port refuses, every GET fails, ping exits 1.\<close>

definition silent_world :: world where
  "silent_world =
     \<lparr>tcp_connect = (\<lambda>ip_address port timeout. ConnectEx 111),
      requests_get = (\<lambda>url. GetRaised),
      platform_system = ''Linux'',
      run_process = (\<lambda>command. Completed 1),
      requests_post = (\<lambda>url data. Posted 200),
      worker_fault = (\<lambda>vm_name. None),
      time_time = 0,
      time_strftime = (\<lambda>format. ''2024-01-01 00:00:00''),
      time_ctime = ''Mon Jan  1 00:00:00 2024''\<rparr>"

text \<open>A host whose only service is HTTPS on port 8080.\<close>

definition https_8080_world :: world where
  "https_8080_world =
     silent_world\<lparr>requests_get :=
       (\<lambda>url. if url = ''https://10.0.0.5:8080'' then Response 200 else GetRaised)\<rparr>"

text \<open>A host that answers every ping.\<close>

definition ping_reply_world :: world where
  "ping_reply_world = silent_world\<lparr>run_process := (\<lambda>command. Completed 0)\<rparr>"

text \<open>
  Two servers, as in the scenario of the specification: A listens on port 22, B answers
  nothing.
\<close>

definition two_servers :: config where
  "two_servers =
     \<lparr>SLACK_WEBHOOK_URL = ''https://hooks.slack.example/T000/B000'',
      VMS_TO_MONITOR = [(''A'', ''10.0.0.1''), (''B'', ''10.0.0.2'')],
      COMMON_PORTS = [22, 80, 443, 3389]\<rparr>"

definition ssh_on_A_world :: world where
  "ssh_on_A_world =
     silent_world\<lparr>tcp_connect :=
       (\<lambda>ip_address port timeout.
          if ip_address = ''10.0.0.1'' \<and> port = 22 then ConnectEx 0 else ConnectEx 111)\<rparr>"

text \<open>
  \<open>posted lg\<close> are the payloads that were posted to the webhook, in order. \<open>alert_for w r\<close>
  is the alert that the loop posts for the record \<open>r\<close>, and \<open>listed_fields d\<close> are the
  fields that the payload \<open>d\<close> shows in its sections. \<open>outcome cfg w future\<close> is the record
  that stands for a completed future: the record its worker returned, or the ERROR record
  for the exception that escaped the worker.
\<close>

fun posted :: "event list \<Rightarrow> slack_data list" where
  "posted [] = []"
| "posted (SlackPost url d # es) = d # posted es"
| "posted (e # es) = posted es"

definition alert_for :: "world \<Rightarrow> check_result \<Rightarrow> slack_data" where
  "alert_for w r = alert_data w (r_name r) (r_ip r) (r_status r) (Some (r_method r))"

fun block_fields :: "block \<Rightarrow> string list" where
  "block_fields (SectionFields fs) = fs"
| "block_fields b = []"

definition listed_fields :: "slack_data \<Rightarrow> string list" where
  "listed_fields d = concat (map block_fields (payload_blocks d))"

definition not_up :: "check_result \<Rightarrow> bool" where
  "not_up r = (r_status r \<noteq> ''UP'')"

definition outcome :: "config \<Rightarrow> world \<Rightarrow> string \<times> string \<Rightarrow> check_result" where
  "outcome cfg w future =
     (case worker_fault w (fst future) of
        Some e \<Rightarrow>
          \<lparr>r_name = fst future, r_ip = snd future, r_status = ''ERROR'', r_method = e,
           r_timestamp = time_time w\<rparr>
      | None \<Rightarrow> fst (check_single_vm cfg w (fst future) (snd future)))"

text \<open>
  Five servers, one of which (cache) makes its worker raise; the futures complete in an
  order that differs from the order of submission.
\<close>

definition five_servers :: config where
  "five_servers =
     \<lparr>SLACK_WEBHOOK_URL = ''https://hooks.slack.example/T000/B000'',
      VMS_TO_MONITOR =
        [(''web'', ''10.0.0.1''), (''db'', ''10.0.0.2''), (''cache'', ''10.0.0.3''),
         (''mail'', ''10.0.0.4''), (''backup'', ''10.0.0.5'')],
      COMMON_PORTS = [22, 80, 443]\<rparr>"

definition five_completed :: "(string \<times> string) list" where
  "five_completed =
     [(''db'', ''10.0.0.2''), (''web'', ''10.0.0.1''), (''backup'', ''10.0.0.5''),
      (''cache'', ''10.0.0.3''), (''mail'', ''10.0.0.4'')]"

definition cache_fault_world :: world where
  "cache_fault_world =
     ssh_on_A_world\<lparr>worker_fault :=
       (\<lambda>vm_name. if vm_name = ''cache'' then Some ''boom'' else None)\<rparr>"

text \<open>Twelve servers, none of which answers anything.\<close>

definition twelve_servers :: config where
  "twelve_servers =
     \<lparr>SLACK_WEBHOOK_URL = ''https://hooks.slack.example/T000/B000'',
      VMS_TO_MONITOR =
        [(''s01'', ''10.0.1.1''), (''s02'', ''10.0.1.2''), (''s03'', ''10.0.1.3''),
         (''s04'', ''10.0.1.4''), (''s05'', ''10.0.1.5''), (''s06'', ''10.0.1.6''),
         (''s07'', ''10.0.1.7''), (''s08'', ''10.0.1.8''), (''s09'', ''10.0.1.9''),
         (''s10'', ''10.0.1.10''), (''s11'', ''10.0.1.11''), (''s12'', ''10.0.1.12'')],
      COMMON_PORTS = [22, 80, 443]\<rparr>"

text \<open>A webhook that answers 500, and one that cannot be reached.\<close>

definition webhook_500_world :: world where
  "webhook_500_world = ssh_on_A_world\<lparr>requests_post := (\<lambda>url data. Posted 500)\<rparr>"

definition webhook_down_world :: world where
  "webhook_down_world =
     ssh_on_A_world\<lparr>requests_post := (\<lambda>url data. RequestException ''Connection refused'')\<rparr>"

definition observable :: "run_state \<Rightarrow> check_result list \<times> check_result list \<times> slack_data list" where
  \<comment> \<open>what a run determined and which payloads it posted, leaving aside what it printed\<close>
  "observable st = (results st, down_servers st, posted (effects st))"

text \<open>Three answers of the geocoding service: a match, a malformed match, no match.\<close>

definition found_response :: api_outcome where
  "found_response =
     ApiResponse 200
       (Inr (JDict
          [(''status'', JStr ''OK''),
           (''results'',
            JList
              [JDict
                 [(''formatted_address'', JStr ''MG Road, Bengaluru, Karnataka 560001, India''),
                  (''geometry'',
                   JDict [(''location'', JDict [(''lat'', JFloat (129716 / 10000)),
                                                (''lng'', JFloat (775946 / 10000))])]),
                  (''place_id'', JStr ''ChIJbU60yXAWrjsR4E9-UejD3_g'')]])]))"

definition malformed_response :: api_outcome where
  "malformed_response =
     ApiResponse 200
       (Inr (JDict [(''status'', JStr ''OK''),
                    (''results'', JList [JDict [(''place_id'', JStr ''x'')]])]))"

definition zero_results_response :: api_outcome where
  "zero_results_response =
     ApiResponse 200 (Inr (JDict [(''status'', JStr ''ZERO_RESULTS''), (''results'', JList [])]))"

section \<open>Properties of the probes\<close>

lemma find_append_cases:
  "find P (xs @ ys) = (case find P xs of None \<Rightarrow> find P ys | Some x \<Rightarrow> Some x)"
  by (induction xs) simp_all

lemma attempts_append:
  "attempts P (xs @ ys) =
     (case find P xs of None \<Rightarrow> xs @ attempts P ys | Some x \<Rightarrow> attempts P xs)"
  by (induction xs) (simp_all split: option.splits)

lemma check_tcp_port_eq:
  "check_tcp_port w ip_address port timeout =
     (tcp_connect w ip_address port timeout = ConnectEx 0,
      [TcpConnect ip_address port timeout])"
  by (simp add: check_tcp_port_def split: sock_outcome.splits)

lemma check_any_port_open_eq:
  "check_any_port_open w ip_address ports =
     ((case find (accepts w ip_address) ports of
         None \<Rightarrow> (False, None)
       | Some port \<Rightarrow> (True, Some port)),
      map (\<lambda>port. TcpConnect ip_address port 2) (attempts (accepts w ip_address) ports))"
  by (induction ports) (simp_all add: check_tcp_port_eq accepts_def split: option.splits)

text \<open>
  C8. The port probe is a total function into (open, port) pairs: it has no error
  result. For every address and every ordered port list it answers with the first port of
  the list that accepts the connection, and with \<open>(False, None)\<close> when none does; it
  connects to the ports in list order and to none after the first open one. One attempt
  counts as open exactly when \<^verbatim>\<open>connect_ex\<close> returns 0: every other return value and
  every raised exception alike makes the port closed.
\<close>

theorem port_probe_first_open:
  "fst (check_any_port_open w ip_address ports) =
     (case find (accepts w ip_address) ports of
        None \<Rightarrow> (False, None)
      | Some port \<Rightarrow> (True, Some port))
   \<and> snd (check_any_port_open w ip_address ports) =
       map (\<lambda>port. TcpConnect ip_address port 2) (attempts (accepts w ip_address) ports)
   \<and> fst (check_tcp_port w ip_address port timeout) =
       (tcp_connect w ip_address port timeout = ConnectEx 0)"
  by (simp add: check_any_port_open_eq check_tcp_port_eq)

lemma http_port_loop_eq:
  "http_port_loop w ip_address protocol ports =
     (map_option service_name (find (responds w ip_address) (map (Pair protocol) ports)),
      map (get_event ip_address)
        (attempts (responds w ip_address) (map (Pair protocol) ports)))"
  by (induction ports)
     (simp_all add: responds_def service_name_def get_event_def split: http_outcome.splits)

lemma http_protocol_loop_eq:
  "http_protocol_loop w ip_address protocols =
     ((case find (responds w ip_address)
              (concat (map (\<lambda>protocol. map (Pair protocol) [80, 443, 8080, 3000, 8000])
                 protocols)) of
         None \<Rightarrow> (False, None)
       | Some c \<Rightarrow> (True, Some (service_name c))),
      map (get_event ip_address)
        (attempts (responds w ip_address)
           (concat (map (\<lambda>protocol. map (Pair protocol) [80, 443, 8080, 3000, 8000])
              protocols))))"
proof (induction protocols)
  case Nil
  show ?case by simp
next
  case (Cons protocol protocols)
  show ?case
    unfolding http_protocol_loop.simps http_port_loop_eq Cons.IH
    by (simp add: find_append_cases attempts_append split: option.splits)
qed

text \<open>
  C4, as the code has it. The HTTP probe walks through ten combinations, not five: each of
  the schemes http and https with each of the ports 80, 443, 8080, 3000 and 8000, all
  ports of http first. A combination counts when its GET is answered with a status code
  below 500. The probe answers with the first combination of that order that counts, and
  with \<open>(False, None)\<close> when none of the ten does; it issues the GETs in that order and
  none after the first that counts.
\<close>

theorem http_probe_candidates:
  "fst (check_http_service w ip_address) =
     (case find (responds w ip_address) http_candidates of
        None \<Rightarrow> (False, None)
      | Some c \<Rightarrow> (True, Some (service_name c)))
   \<and> snd (check_http_service w ip_address) =
       map (get_event ip_address) (attempts (responds w ip_address) http_candidates)"
  by (simp add: check_http_service_def http_protocol_loop_eq http_candidates_def)

text \<open>
  C4, as the claim has it, fails on a host that serves HTTPS on port 8080 only: each of the
  five listed combinations raises, yet the probe reports success, with a combination that
  is not on the list, after eight GETs.
\<close>

theorem http_probe_counterexample:
  "requests_get https_8080_world (request_url ''http'' ''10.0.0.5'' 80) = GetRaised
   \<and> requests_get https_8080_world (request_url ''https'' ''10.0.0.5'' 443) = GetRaised
   \<and> requests_get https_8080_world (request_url ''http'' ''10.0.0.5'' 8080) = GetRaised
   \<and> requests_get https_8080_world (request_url ''http'' ''10.0.0.5'' 3000) = GetRaised
   \<and> requests_get https_8080_world (request_url ''http'' ''10.0.0.5'' 8000) = GetRaised
   \<and> fst (check_http_service https_8080_world ''10.0.0.5'') = (True, Some ''https:8080'')
   \<and> length (snd (check_http_service https_8080_world ''10.0.0.5'')) = 8"
  by (simp add: https_8080_world_def silent_world_def request_url_def str_int_def str_nat.simps
      check_http_service_def)

lemma check_vm_status_ping_eq: "check_vm_status_ping w ip_address = (False, [])"
  by (simp add: check_vm_status_ping_def subprocess_run_def)

text \<open>
  C5. On a host that answers every ping (the ping command would exit with 0), the ICMP
  probe reports failure, and it does so without starting any process: the call of
  \<^verbatim>\<open>subprocess.run\<close> passes \<^verbatim>\<open>capture_output=True\<close> together with \<^verbatim>\<open>stdout\<close> and
  \<^verbatim>\<open>stderr\<close>, which raises \<^verbatim>\<open>ValueError\<close> inside the \<^verbatim>\<open>try\<close>, and the bare
  \<^verbatim>\<open>except\<close> turns it into \<^verbatim>\<open>False\<close>.
\<close>

theorem ping_probe_fails_on_reachable_host:
  "run_process ping_reply_world (ping_command ping_reply_world ''127.0.0.1'') = Completed 0
   \<and> ping_command ping_reply_world ''127.0.0.1'' = [''ping'', ''-c'', ''2'', ''-W'', ''3'', ''127.0.0.1'']
   \<and> check_vm_status_ping ping_reply_world ''127.0.0.1'' = (False, [])"
  by (simp add: ping_reply_world_def silent_world_def ping_command_def lower_def lower_char_def
      check_vm_status_ping_def subprocess_run_def)

section \<open>Properties of the classifier\<close>

lemma comprehensive_server_check_eq:
  "comprehensive_server_check cfg w ip_address =
     (if fst (fst (check_any_port_open w ip_address (COMMON_PORTS cfg)))
      then ((''UP'',
             ''TCP Port ''
             @ fmt_port (snd (fst (check_any_port_open w ip_address (COMMON_PORTS cfg))))),
            snd (check_any_port_open w ip_address (COMMON_PORTS cfg)))
      else if fst (fst (check_http_service w ip_address))
      then ((''UP'', ''HTTP '' @ fmt_str (snd (fst (check_http_service w ip_address)))),
            snd (check_any_port_open w ip_address (COMMON_PORTS cfg))
            @ snd (check_http_service w ip_address))
      else if fst (check_vm_status_ping w ip_address)
      then ((''UP'', ''ICMP Ping''),
            snd (check_any_port_open w ip_address (COMMON_PORTS cfg))
            @ snd (check_http_service w ip_address) @ snd (check_vm_status_ping w ip_address))
      else ((''DOWN'', ''All checks failed''),
            snd (check_any_port_open w ip_address (COMMON_PORTS cfg))
            @ snd (check_http_service w ip_address) @ snd (check_vm_status_ping w ip_address)))"
  unfolding comprehensive_server_check_def
  by (cases "check_any_port_open w ip_address (COMMON_PORTS cfg)";
      cases "check_http_service w ip_address";
      cases "check_vm_status_ping w ip_address") auto

text \<open>
  C1. For every address, what the classifier does on the network is what the port probe
  does, followed, only if the port probe failed, by what the HTTP probe does, followed,
  only if that failed too, by what the ICMP probe does. Whenever at least one of the three
  probes reports success, the status is UP and the method names the first probe, in the
  order port, HTTP, ICMP, that reported success, with the port or service it found.
  (On every world the ICMP probe reports failure, see C5, so the method is never the
  third one.)
\<close>

theorem classifier_first_success:
  "snd (comprehensive_server_check cfg w ip_address) =
     snd (check_any_port_open w ip_address (COMMON_PORTS cfg))
     @ (if fst (fst (check_any_port_open w ip_address (COMMON_PORTS cfg))) then []
        else snd (check_http_service w ip_address)
          @ (if fst (fst (check_http_service w ip_address)) then []
             else snd (check_vm_status_ping w ip_address)))
   \<and> (fst (fst (check_any_port_open w ip_address (COMMON_PORTS cfg)))
        \<or> fst (fst (check_http_service w ip_address))
        \<or> fst (check_vm_status_ping w ip_address)
      \<longrightarrow> fst (comprehensive_server_check cfg w ip_address) =
            (''UP'',
             if fst (fst (check_any_port_open w ip_address (COMMON_PORTS cfg)))
             then ''TCP Port ''
                  @ fmt_port (snd (fst (check_any_port_open w ip_address (COMMON_PORTS cfg))))
             else if fst (fst (check_http_service w ip_address))
             then ''HTTP '' @ fmt_str (snd (fst (check_http_service w ip_address)))
             else ''ICMP Ping''))"
  by (simp add: comprehensive_server_check_eq)

lemma ssh_on_A_port_probe:
  "check_any_port_open ssh_on_A_world ''10.0.0.1'' (COMMON_PORTS two_servers) =
     ((True, Some 22), [TcpConnect ''10.0.0.1'' 22 2])"
  by (simp add: two_servers_def ssh_on_A_world_def silent_world_def check_tcp_port_eq)

theorem classifier_first_success_witness:
  "fst (fst (check_any_port_open ssh_on_A_world ''10.0.0.1'' (COMMON_PORTS two_servers)))
   \<and> comprehensive_server_check two_servers ssh_on_A_world ''10.0.0.1'' =
       ((''UP'', ''TCP Port 22''), [TcpConnect ''10.0.0.1'' 22 2])"
  using classifier_first_success [of two_servers ssh_on_A_world "''10.0.0.1''"]
  by (simp add: ssh_on_A_port_probe fmt_port_def str_int_def str_nat.simps prod_eq_iff)

lemma classifier_http_example:
  "fst (comprehensive_server_check two_servers https_8080_world ''10.0.0.5'') =
     (''UP'', ''HTTP https:8080'')"
  by (simp add: comprehensive_server_check_eq two_servers_def https_8080_world_def
      silent_world_def check_tcp_port_eq check_http_service_def request_url_def fmt_str_def
      str_int_def str_nat.simps)

text \<open>
  C2. For every address on which the port probe, the HTTP probe and the ICMP probe all
  report failure, the classifier returns exactly \<open>(''DOWN'', ''All checks failed'')\<close>.
\<close>

theorem classifier_all_failed:
  "\<not> fst (fst (check_any_port_open w ip_address (COMMON_PORTS cfg))) \<Longrightarrow>
   \<not> fst (fst (check_http_service w ip_address)) \<Longrightarrow>
   \<not> fst (check_vm_status_ping w ip_address) \<Longrightarrow>
   fst (comprehensive_server_check cfg w ip_address) = (''DOWN'', ''All checks failed'')"
  by (simp add: comprehensive_server_check_eq)

lemma silent_probes:
  "fst (check_any_port_open ssh_on_A_world ''10.0.0.2'' (COMMON_PORTS two_servers)) =
     (False, None)"
  "fst (check_http_service ssh_on_A_world ''10.0.0.2'') = (False, None)"
  "fst (check_vm_status_ping ssh_on_A_world ''10.0.0.2'') = False"
  by (simp_all add: two_servers_def ssh_on_A_world_def silent_world_def check_tcp_port_eq
      check_http_service_def check_vm_status_ping_eq)

theorem classifier_all_failed_witness:
  "\<not> fst (fst (check_any_port_open ssh_on_A_world ''10.0.0.2'' (COMMON_PORTS two_servers)))
   \<and> \<not> fst (fst (check_http_service ssh_on_A_world ''10.0.0.2''))
   \<and> \<not> fst (check_vm_status_ping ssh_on_A_world ''10.0.0.2'')
   \<and> fst (comprehensive_server_check two_servers ssh_on_A_world ''10.0.0.2'') =
       (''DOWN'', ''All checks failed'')"
  using classifier_all_failed [of ssh_on_A_world "''10.0.0.2''" two_servers]
  by (simp add: silent_probes)

section \<open>Properties of the run\<close>

lemma posted_append: "posted (xs @ ys) = posted xs @ posted ys"
  by (induction xs rule: posted.induct) simp_all

lemma send_slack_notification_eq:
  "\<exists>line. send_slack_notification cfg w vm_name ip_address status method =
     (requests_post w (SLACK_WEBHOOK_URL cfg) (alert_data w vm_name ip_address status method)
        = Posted 200,
      [SlackPost (SLACK_WEBHOOK_URL cfg) (alert_data w vm_name ip_address status method),
       Print line])"
  by (simp add: send_slack_notification_def Let_def split: post_outcome.splits)

lemma posted_send_slack_notification:
  "posted (snd (send_slack_notification cfg w vm_name ip_address status method)) =
     [alert_data w vm_name ip_address status method]"
  by (simp add: send_slack_notification_def Let_def split: post_outcome.splits)

lemma posted_send_summary_notification:
  "posted (send_summary_notification cfg w down total_servers) =
     (if down = [] then [] else [summary_data w down total_servers])"
  by (simp add: send_summary_notification_def Let_def split: post_outcome.splits)

lemma posted_final_summary:
  "posted (final_summary cfg w st) =
     (if down_servers st = [] then []
      else [summary_data w (down_servers st) (int (length (results st)))])"
  by (cases "down_servers st")
     (simp_all add: final_summary_def posted_send_summary_notification)

lemma outcome_eq:
  "outcome cfg w future =
     (case future_result cfg w future of
        Inr result \<Rightarrow> result
      | Inl e \<Rightarrow>
          \<lparr>r_name = fst future, r_ip = snd future, r_status = ''ERROR'', r_method = e,
           r_timestamp = time_time w\<rparr>)"
  by (simp add: outcome_def future_result_def split: option.splits)

lemma collect_step:
  assumes "map_of (VMS_TO_MONITOR cfg) (fst future) = Some (snd future)"
  shows "\<exists>st1. collect cfg w (future # futures) st = collect cfg w futures st1
           \<and> results st1 = results st @ [outcome cfg w future]
           \<and> down_servers st1 = down_servers st @ filter not_up [outcome cfg w future]
           \<and> posted (effects st1) =
               posted (effects st) @ map (alert_for w) (filter not_up [outcome cfg w future])"
proof (cases "future_result cfg w future")
  case (Inr result)
  then have eq: "outcome cfg w future = result"
    by (simp add: outcome_eq)
  show ?thesis
  proof (cases "r_status result = ''UP''")
    case True
    with Inr eq show ?thesis
      by (intro exI [of _ "st\<lparr>results := results st @ [result]\<rparr>"])
         (simp add: not_up_def)
  next
    case False
    with Inr eq show ?thesis
      by (intro exI [of _
            "\<lparr>results = results st @ [result],
              down_servers = down_servers st @ [result],
              effects = effects st
                @ snd (send_slack_notification cfg w (r_name result) (r_ip result)
                         (r_status result) (Some (r_method result)))\<rparr>"])
         (simp add: not_up_def alert_for_def posted_append posted_send_slack_notification)
  qed
next
  case (Inl e)
  then have eq: "outcome cfg w future =
      \<lparr>r_name = fst future, r_ip = snd future, r_status = ''ERROR'', r_method = e,
       r_timestamp = time_time w\<rparr>"
    by (simp add: outcome_eq)
  from Inl assms show ?thesis
    unfolding eq
    by (intro exI [of _
          "\<lparr>results = results st
               @ [\<lparr>r_name = fst future, r_ip = snd future, r_status = ''ERROR'', r_method = e,
                   r_timestamp = time_time w\<rparr>],
            down_servers = down_servers st
               @ [\<lparr>r_name = fst future, r_ip = snd future, r_status = ''ERROR'', r_method = e,
                   r_timestamp = time_time w\<rparr>],
            effects = effects st
              @ [Print (''   '' @ warning_sign @ '' Exception checking '' @ fst future
                        @ '': '' @ e)]
              @ snd (send_slack_notification cfg w (fst future) (snd future) ''ERROR''
                       (Some e))\<rparr>"])
       (simp add: Let_def not_up_def alert_for_def posted_append
          posted_send_slack_notification)
qed

lemma collect_eq:
  assumes "\<forall>future \<in> set futures. map_of (VMS_TO_MONITOR cfg) (fst future) = Some (snd future)"
  shows "\<exists>st'. collect cfg w futures st = Inr st'
           \<and> results st' = results st @ map (outcome cfg w) futures
           \<and> down_servers st' = down_servers st @ filter not_up (map (outcome cfg w) futures)
           \<and> posted (effects st') =
               posted (effects st) @ map (alert_for w) (filter not_up (map (outcome cfg w) futures))"
  using assms
proof (induction futures arbitrary: st)
  case Nil
  show ?case by simp
next
  case (Cons future futures)
  from Cons.prems have "map_of (VMS_TO_MONITOR cfg) (fst future) = Some (snd future)"
    by simp
  from collect_step [OF this, of w futures st]
  obtain st1 where st1:
    "collect cfg w (future # futures) st = collect cfg w futures st1"
    "results st1 = results st @ [outcome cfg w future]"
    "down_servers st1 = down_servers st @ filter not_up [outcome cfg w future]"
    "posted (effects st1) =
       posted (effects st) @ map (alert_for w) (filter not_up [outcome cfg w future])"
    by blast
  from Cons.prems
  have "\<forall>future \<in> set futures. map_of (VMS_TO_MONITOR cfg) (fst future) = Some (snd future)"
    by simp
  from Cons.IH [OF this, of st1]
  obtain st' where st':
    "collect cfg w futures st1 = Inr st'"
    "results st' = results st1 @ map (outcome cfg w) futures"
    "down_servers st' = down_servers st1 @ filter not_up (map (outcome cfg w) futures)"
    "posted (effects st') =
       posted (effects st1) @ map (alert_for w) (filter not_up (map (outcome cfg w) futures))"
    by blast
  show ?case
  proof (intro exI conjI)
    show "collect cfg w (future # futures) st = Inr st'"
      using st1(1) st'(1) by simp
    show "results st' = results st @ map (outcome cfg w) (future # futures)"
      using st1(2) st'(2) by simp
    show "down_servers st' =
            down_servers st @ filter not_up (map (outcome cfg w) (future # futures))"
      using st1(3) st'(3) by simp
    show "posted (effects st') =
            posted (effects st)
            @ map (alert_for w) (filter not_up (map (outcome cfg w) (future # futures)))"
      using st1(4) st'(4) by simp
  qed
qed

lemma completed_futures_known:
  assumes "distinct (map fst (VMS_TO_MONITOR cfg))"
    and "mset as_completed = mset (VMS_TO_MONITOR cfg)"
  shows "\<forall>future \<in> set as_completed.
           map_of (VMS_TO_MONITOR cfg) (fst future) = Some (snd future)"
proof
  fix future
  assume "future \<in> set as_completed"
  with assms(2) have "future \<in> set (VMS_TO_MONITOR cfg)"
    by (metis set_mset_mset)
  with assms(1) show "map_of (VMS_TO_MONITOR cfg) (fst future) = Some (snd future)"
    by (cases future) simp
qed

lemma main_eq:
  assumes "distinct (map fst (VMS_TO_MONITOR cfg))"
    and "mset as_completed = mset (VMS_TO_MONITOR cfg)"
  shows "\<exists>st. main cfg w as_completed = Inr st
           \<and> results st = map (outcome cfg w) as_completed
           \<and> down_servers st = filter not_up (results st)
           \<and> posted (effects st) =
               map (alert_for w) (down_servers st)
               @ (if down_servers st = [] then []
                  else [summary_data w (down_servers st) (int (length (results st)))])"
proof -
  from collect_eq [OF completed_futures_known [OF assms],
      of w "\<lparr>results = [], down_servers = [], effects = []\<rparr>"]
  obtain st' where st':
    "collect cfg w as_completed \<lparr>results = [], down_servers = [], effects = []\<rparr> = Inr st'"
    "results st' = map (outcome cfg w) as_completed"
    "down_servers st' = filter not_up (map (outcome cfg w) as_completed)"
    "posted (effects st') = map (alert_for w) (filter not_up (map (outcome cfg w) as_completed))"
    by auto
  show ?thesis
  proof (intro exI conjI)
    show "main cfg w as_completed = Inr (st'\<lparr>effects := effects st' @ final_summary cfg w st'\<rparr>)"
      by (simp add: main_def st'(1))
    show "results (st'\<lparr>effects := effects st' @ final_summary cfg w st'\<rparr>) =
            map (outcome cfg w) as_completed"
      by (simp add: st'(2))
    show "down_servers (st'\<lparr>effects := effects st' @ final_summary cfg w st'\<rparr>) =
            filter not_up (results (st'\<lparr>effects := effects st' @ final_summary cfg w st'\<rparr>))"
      by (simp add: st'(2,3))
    show "posted (effects (st'\<lparr>effects := effects st' @ final_summary cfg w st'\<rparr>)) =
            map (alert_for w) (down_servers (st'\<lparr>effects := effects st' @ final_summary cfg w st'\<rparr>))
            @ (if down_servers (st'\<lparr>effects := effects st' @ final_summary cfg w st'\<rparr>) = [] then []
               else [summary_data w (down_servers (st'\<lparr>effects := effects st' @ final_summary cfg w st'\<rparr>))
                       (int (length (results (st'\<lparr>effects := effects st' @ final_summary cfg w st'\<rparr>))))])"
      by (simp add: posted_append posted_final_summary st'(3,4))
  qed
qed

lemma classifier_status: "fst (fst (comprehensive_server_check cfg w ip_address)) \<in> {''UP'', ''DOWN''}"
  by (simp add: comprehensive_server_check_eq)

lemma check_single_vm_fields:
  "r_name (fst (check_single_vm cfg w vm_name ip_address)) = vm_name"
  "r_ip (fst (check_single_vm cfg w vm_name ip_address)) = ip_address"
  "r_status (fst (check_single_vm cfg w vm_name ip_address)) =
     fst (fst (comprehensive_server_check cfg w ip_address))"
  "r_method (fst (check_single_vm cfg w vm_name ip_address)) =
     snd (fst (comprehensive_server_check cfg w ip_address))"
  by (simp_all add: check_single_vm_def split: prod.splits)

text \<open>
  C3. In a run over any targets, with the futures completing in any order, the loop
  reaches its end and leaves one record per target, in the order of completion. For a
  target whose worker raised, the record has the target's name and address, the status
  ERROR and the text of the exception as its method. For every other target the record
  is the one its own worker returned, with the status UP or DOWN that the classifier gave,
  whatever happened to the other targets.
\<close>

theorem fault_isolation:
  assumes "distinct (map fst (VMS_TO_MONITOR cfg))"
    and "mset as_completed = mset (VMS_TO_MONITOR cfg)"
  shows "\<exists>st. main cfg w as_completed = Inr st
           \<and> length (results st) = length as_completed
           \<and> (\<forall>i < length as_completed.
                 case worker_fault w (fst (as_completed ! i)) of
                   Some e \<Rightarrow>
                     results st ! i =
                       \<lparr>r_name = fst (as_completed ! i), r_ip = snd (as_completed ! i),
                        r_status = ''ERROR'', r_method = e, r_timestamp = time_time w\<rparr>
                 | None \<Rightarrow>
                     results st ! i =
                       fst (check_single_vm cfg w (fst (as_completed ! i))
                              (snd (as_completed ! i)))
                     \<and> r_status (results st ! i) \<in> {''UP'', ''DOWN''})"
proof -
  from main_eq [OF assms, of w]
  obtain st where st:
    "main cfg w as_completed = Inr st"
    "results st = map (outcome cfg w) as_completed"
    by blast
  show ?thesis
  proof (intro exI conjI allI impI)
    show "main cfg w as_completed = Inr st"
      by (rule st(1))
    show "length (results st) = length as_completed"
      by (simp add: st(2))
    fix i
    assume "i < length as_completed"
    then have "results st ! i = outcome cfg w (as_completed ! i)"
      by (simp add: st(2))
    then show "case worker_fault w (fst (as_completed ! i)) of
        Some e \<Rightarrow>
          results st ! i =
            \<lparr>r_name = fst (as_completed ! i), r_ip = snd (as_completed ! i),
             r_status = ''ERROR'', r_method = e, r_timestamp = time_time w\<rparr>
      | None \<Rightarrow>
          results st ! i =
            fst (check_single_vm cfg w (fst (as_completed ! i)) (snd (as_completed ! i)))
          \<and> r_status (results st ! i) \<in> {''UP'', ''DOWN''}"
      using classifier_status [of cfg w "snd (as_completed ! i)"]
      by (simp add: outcome_def check_single_vm_fields split: option.splits)
  qed
qed

lemma five_outcomes:
  "map (outcome five_servers cache_fault_world) five_completed =
     [\<lparr>r_name = ''db'', r_ip = ''10.0.0.2'', r_status = ''DOWN'',
       r_method = ''All checks failed'', r_timestamp = 0\<rparr>,
      \<lparr>r_name = ''web'', r_ip = ''10.0.0.1'', r_status = ''UP'',
       r_method = ''TCP Port 22'', r_timestamp = 0\<rparr>,
      \<lparr>r_name = ''backup'', r_ip = ''10.0.0.5'', r_status = ''DOWN'',
       r_method = ''All checks failed'', r_timestamp = 0\<rparr>,
      \<lparr>r_name = ''cache'', r_ip = ''10.0.0.3'', r_status = ''ERROR'',
       r_method = ''boom'', r_timestamp = 0\<rparr>,
      \<lparr>r_name = ''mail'', r_ip = ''10.0.0.4'', r_status = ''DOWN'',
       r_method = ''All checks failed'', r_timestamp = 0\<rparr>]"
  by (simp add: five_completed_def five_servers_def cache_fault_world_def ssh_on_A_world_def
      silent_world_def outcome_def check_single_vm_def comprehensive_server_check_eq
      check_tcp_port_eq check_http_service_def check_vm_status_ping_eq fmt_port_def
      str_int_def str_nat.simps)

theorem fault_isolation_witness:
  "distinct (map fst (VMS_TO_MONITOR five_servers))
   \<and> mset five_completed = mset (VMS_TO_MONITOR five_servers)
   \<and> (\<exists>st. main five_servers cache_fault_world five_completed = Inr st
         \<and> map r_status (results st) = [''DOWN'', ''UP'', ''DOWN'', ''ERROR'', ''DOWN'']
         \<and> r_method (results st ! 3) = ''boom'')"
proof -
  have d: "distinct (map fst (VMS_TO_MONITOR five_servers))"
    by (simp add: five_servers_def)
  have m: "mset five_completed = mset (VMS_TO_MONITOR five_servers)"
    by (simp add: five_servers_def five_completed_def)
  from fault_isolation [OF d m, of cache_fault_world]
  obtain st where st:
    "main five_servers cache_fault_world five_completed = Inr st"
    "length (results st) = length five_completed"
    by blast
  from main_eq [OF d m, of cache_fault_world] st(1)
  have "results st = map (outcome five_servers cache_fault_world) five_completed"
    by auto
  with st(1) d m show ?thesis
    by (simp add: five_outcomes)
qed

lemma summary_data_fields:
  "listed_fields (summary_data w down total_servers) = take 10 (map server_field down)"
  "payload_text (summary_data w down total_servers) =
     warning_sign @ '' MONITORING SUMMARY: '' @ str_int (int (length down)) @ ''/''
     @ str_int total_servers @ '' servers are DOWN''"
  "payload_blocks (summary_data w down total_servers) ! 1 =
     SectionText (''*'' @ str_int (int (length down)) @ '' out of '' @ str_int total_servers
                  @ '' servers are currently DOWN* '' @ red_circle)"
  by (simp_all add: summary_data_def listed_fields_def Let_def)

text \<open>
  C6. In a run over any targets, with the futures completing in any order, the records
  kept as down are exactly the records whose status is not UP, and there is one record per
  target. If at least one record is not UP, the last payload posted is the summary: its
  sections list the first ten down records and no more (so many as the smaller of 10 and
  the number of down records), and both its headline and its first section give the number
  of all down records and the number of all targets, whether or not the list was cut.
\<close>

theorem summary_lists_first_ten:
  assumes "distinct (map fst (VMS_TO_MONITOR cfg))"
    and "mset as_completed = mset (VMS_TO_MONITOR cfg)"
  shows "\<exists>st. main cfg w as_completed = Inr st
           \<and> length (results st) = length (VMS_TO_MONITOR cfg)
           \<and> down_servers st = filter not_up (results st)
           \<and> (down_servers st \<noteq> [] \<longrightarrow>
                (\<exists>alerts summary.
                   posted (effects st) = alerts @ [summary]
                   \<and> listed_fields summary = take 10 (map server_field (down_servers st))
                   \<and> length (listed_fields summary) = min 10 (length (down_servers st))
                   \<and> payload_text summary =
                       warning_sign @ '' MONITORING SUMMARY: ''
                       @ str_int (int (length (down_servers st))) @ ''/''
                       @ str_int (int (length (VMS_TO_MONITOR cfg))) @ '' servers are DOWN''
                   \<and> payload_blocks summary ! 1 =
                       SectionText
                         (''*'' @ str_int (int (length (down_servers st))) @ '' out of ''
                          @ str_int (int (length (VMS_TO_MONITOR cfg)))
                          @ '' servers are currently DOWN* '' @ red_circle)))"
proof -
  from main_eq [OF assms, of w]
  obtain st where st:
    "main cfg w as_completed = Inr st"
    "results st = map (outcome cfg w) as_completed"
    "down_servers st = filter not_up (results st)"
    "posted (effects st) =
       map (alert_for w) (down_servers st)
       @ (if down_servers st = [] then []
          else [summary_data w (down_servers st) (int (length (results st)))])"
    by blast
  have "length as_completed = length (VMS_TO_MONITOR cfg)"
    using assms(2) by (metis size_mset)
  then have len: "length (results st) = length (VMS_TO_MONITOR cfg)"
    by (simp add: st(2))
  show ?thesis
  proof (intro exI conjI impI)
    show "main cfg w as_completed = Inr st"
      by (rule st(1))
    show "length (results st) = length (VMS_TO_MONITOR cfg)"
      by (rule len)
    show "down_servers st = filter not_up (results st)"
      by (rule st(3))
  next
    assume "down_servers st \<noteq> []"
    then show "posted (effects st) =
        map (alert_for w) (down_servers st)
        @ [summary_data w (down_servers st) (int (length (VMS_TO_MONITOR cfg)))]"
      by (simp add: st(4) len)
  next
    show "listed_fields (summary_data w (down_servers st) (int (length (VMS_TO_MONITOR cfg)))) =
        take 10 (map server_field (down_servers st))"
      by (rule summary_data_fields(1))
    show "length (listed_fields
            (summary_data w (down_servers st) (int (length (VMS_TO_MONITOR cfg))))) =
        min 10 (length (down_servers st))"
      by (simp add: summary_data_fields(1))
    show "payload_text (summary_data w (down_servers st) (int (length (VMS_TO_MONITOR cfg)))) =
        warning_sign @ '' MONITORING SUMMARY: ''
        @ str_int (int (length (down_servers st))) @ ''/''
        @ str_int (int (length (VMS_TO_MONITOR cfg))) @ '' servers are DOWN''"
      by (rule summary_data_fields(2))
    show "payload_blocks (summary_data w (down_servers st) (int (length (VMS_TO_MONITOR cfg)))) ! 1 =
        SectionText
          (''*'' @ str_int (int (length (down_servers st))) @ '' out of ''
           @ str_int (int (length (VMS_TO_MONITOR cfg)))
           @ '' servers are currently DOWN* '' @ red_circle)"
      by (rule summary_data_fields(3))
  qed
qed

lemma twelve_silent_outcome:
  "outcome twelve_servers silent_world future =
     \<lparr>r_name = fst future, r_ip = snd future, r_status = ''DOWN'',
      r_method = ''All checks failed'', r_timestamp = 0\<rparr>"
  by (simp add: outcome_def check_single_vm_def comprehensive_server_check_eq
      twelve_servers_def silent_world_def check_tcp_port_eq check_http_service_def
      check_vm_status_ping_eq)

theorem summary_lists_first_ten_witness:
  "distinct (map fst (VMS_TO_MONITOR twelve_servers))
   \<and> mset (rev (VMS_TO_MONITOR twelve_servers)) = mset (VMS_TO_MONITOR twelve_servers)
   \<and> (\<exists>st. main twelve_servers silent_world (rev (VMS_TO_MONITOR twelve_servers)) = Inr st
         \<and> length (results st) = 12
         \<and> length (down_servers st) = 12
         \<and> length (listed_fields (last (posted (effects st)))) = 10
         \<and> payload_text (last (posted (effects st))) =
             warning_sign @ '' MONITORING SUMMARY: 12/12 servers are DOWN'')"
proof -
  have d: "distinct (map fst (VMS_TO_MONITOR twelve_servers))"
    by (simp add: twelve_servers_def)
  have m: "mset (rev (VMS_TO_MONITOR twelve_servers)) = mset (VMS_TO_MONITOR twelve_servers)"
    by simp
  have n: "length (VMS_TO_MONITOR twelve_servers) = 12"
    by (simp add: twelve_servers_def)
  from main_eq [OF d m, of silent_world]
  obtain st0 where st0:
    "main twelve_servers silent_world (rev (VMS_TO_MONITOR twelve_servers)) = Inr st0"
    "results st0 =
       map (outcome twelve_servers silent_world) (rev (VMS_TO_MONITOR twelve_servers))"
    "down_servers st0 = filter not_up (results st0)"
    by blast
  have down: "length (down_servers st0) = 12"
    by (simp add: st0(2,3) twelve_silent_outcome not_up_def n o_def)
  from summary_lists_first_ten [OF d m, of silent_world] st0(1) down
  obtain alerts summary where s:
    "length (results st0) = length (VMS_TO_MONITOR twelve_servers)"
    "posted (effects st0) = alerts @ [summary]"
    "length (listed_fields summary) = min 10 (length (down_servers st0))"
    "payload_text summary =
       warning_sign @ '' MONITORING SUMMARY: ''
       @ str_int (int (length (down_servers st0))) @ ''/''
       @ str_int (int (length (VMS_TO_MONITOR twelve_servers))) @ '' servers are DOWN''"
    by auto
  show ?thesis
    using d m st0(1) s down n
    by (simp add: str_int_def str_nat.simps)
qed

text \<open>
  C7. A run over no targets ends with no results, no down records and no effect at all:
  nothing is posted and nothing is printed by the loop or by the summary. After any loop,
  the summary dispatch posts the summary payload if the number of down records is at
  least 1, and posts nothing otherwise; \<^verbatim>\<open>send_summary_notification\<close> itself posts
  nothing when it is handed an empty list.
\<close>

theorem empty_run_sends_nothing:
  "main cfg w [] = Inr \<lparr>results = [], down_servers = [], effects = []\<rparr>
   \<and> posted (final_summary cfg w st) =
       (if 1 \<le> length (down_servers st)
        then [summary_data w (down_servers st) (int (length (results st)))]
        else [])
   \<and> send_summary_notification cfg w [] total_servers = []"
proof (intro conjI)
  show "main cfg w [] = Inr \<lparr>results = [], down_servers = [], effects = []\<rparr>"
    by (simp add: main_def final_summary_def)
  show "posted (final_summary cfg w st) =
      (if 1 \<le> length (down_servers st)
       then [summary_data w (down_servers st) (int (length (results st)))]
       else [])"
    by (cases "down_servers st") (simp_all add: posted_final_summary)
  show "send_summary_notification cfg w [] total_servers = []"
    by (simp add: send_summary_notification_def)
qed

lemma two_servers_run:
  "\<exists>st. main two_servers ssh_on_A_world (VMS_TO_MONITOR two_servers) = Inr st
     \<and> results st =
         [\<lparr>r_name = ''A'', r_ip = ''10.0.0.1'', r_status = ''UP'',
           r_method = ''TCP Port 22'', r_timestamp = 0\<rparr>,
          \<lparr>r_name = ''B'', r_ip = ''10.0.0.2'', r_status = ''DOWN'',
           r_method = ''All checks failed'', r_timestamp = 0\<rparr>]
     \<and> map payload_text (posted (effects st)) =
         [red_circle @ '' ALERT: B is DOWN!'',
          warning_sign @ '' MONITORING SUMMARY: 1/2 servers are DOWN'']"
proof -
  have d: "distinct (map fst (VMS_TO_MONITOR two_servers))"
    by (simp add: two_servers_def)
  have o: "map (outcome two_servers ssh_on_A_world) (VMS_TO_MONITOR two_servers) =
      [\<lparr>r_name = ''A'', r_ip = ''10.0.0.1'', r_status = ''UP'',
        r_method = ''TCP Port 22'', r_timestamp = 0\<rparr>,
       \<lparr>r_name = ''B'', r_ip = ''10.0.0.2'', r_status = ''DOWN'',
        r_method = ''All checks failed'', r_timestamp = 0\<rparr>]"
    by (simp add: two_servers_def ssh_on_A_world_def silent_world_def outcome_def
        check_single_vm_def comprehensive_server_check_eq check_tcp_port_eq
        check_http_service_def check_vm_status_ping_eq fmt_port_def str_int_def str_nat.simps)
  from main_eq [OF d refl, of ssh_on_A_world] o
  show ?thesis
    by (auto simp: not_up_def alert_for_def alert_data_def status_emoji_def summary_data_def
        str_int_def str_nat.simps)
qed

lemma accepts_ignores_webhook: "accepts (w\<lparr>requests_post := p\<rparr>) = accepts w"
  by (simp add: accepts_def fun_eq_iff)

lemma responds_ignores_webhook: "responds (w\<lparr>requests_post := p\<rparr>) = responds w"
  by (simp add: responds_def fun_eq_iff)

lemma probes_ignore_webhook:
  "check_any_port_open (w\<lparr>requests_post := p\<rparr>) ip_address ports =
     check_any_port_open w ip_address ports"
  "check_http_service (w\<lparr>requests_post := p\<rparr>) ip_address = check_http_service w ip_address"
  "check_vm_status_ping (w\<lparr>requests_post := p\<rparr>) ip_address =
     check_vm_status_ping w ip_address"
  by (simp_all add: check_any_port_open_eq accepts_ignores_webhook check_http_service_def
      http_protocol_loop_eq responds_ignores_webhook check_vm_status_ping_eq)

lemma classifier_ignores_webhook:
  "comprehensive_server_check cfg (w\<lparr>requests_post := p\<rparr>) ip_address =
     comprehensive_server_check cfg w ip_address"
  unfolding comprehensive_server_check_def probes_ignore_webhook
  by (rule refl)

lemma check_single_vm_ignores_webhook:
  "check_single_vm cfg (w\<lparr>requests_post := p\<rparr>) vm_name ip_address =
     check_single_vm cfg w vm_name ip_address"
  by (simp add: check_single_vm_def classifier_ignores_webhook split: prod.splits)

lemma future_result_ignores_webhook:
  "future_result cfg (w\<lparr>requests_post := p\<rparr>) future = future_result cfg w future"
  by (simp add: future_result_def check_single_vm_ignores_webhook split: option.splits)

lemma payloads_ignore_webhook:
  "alert_data (w\<lparr>requests_post := p\<rparr>) = alert_data w"
  "summary_data (w\<lparr>requests_post := p\<rparr>) = summary_data w"
  by (simp_all add: alert_data_def summary_data_def fun_eq_iff)

lemma collect_ignores_webhook:
  "observable st' = observable st \<Longrightarrow>
   map_sum (\<lambda>err. err) observable (collect cfg (w\<lparr>requests_post := p\<rparr>) futures st') =
     map_sum (\<lambda>err. err) observable (collect cfg w futures st)"
proof (induction futures arbitrary: st st')
  case Nil
  then show ?case by simp
next
  case (Cons future futures)
  show ?case
  proof (cases "future_result cfg w future")
    case (Inr result)
    show ?thesis
    proof (cases "r_status result = ''UP''")
      case True
      with Inr Cons.prems show ?thesis
        by (simp add: future_result_ignores_webhook)
           (rule Cons.IH, simp add: observable_def)
    next
      case False
      with Inr Cons.prems show ?thesis
        by (simp add: future_result_ignores_webhook)
           (rule Cons.IH,
            simp add: observable_def posted_append posted_send_slack_notification
              payloads_ignore_webhook)
    qed
  next
    case (Inl e)
    show ?thesis
    proof (cases "map_of (VMS_TO_MONITOR cfg) (fst future)")
      case None
      with Inl show ?thesis
        by (simp add: future_result_ignores_webhook)
    next
      case (Some ip_addr)
      with Inl Cons.prems show ?thesis
        by (simp add: future_result_ignores_webhook Let_def)
           (rule Cons.IH,
            simp add: observable_def posted_append posted_send_slack_notification
              payloads_ignore_webhook)
    qed
  qed
qed

lemma main_ignores_webhook:
  "map_sum (\<lambda>err. err) observable (main cfg (w\<lparr>requests_post := p\<rparr>) as_completed) =
     map_sum (\<lambda>err. err) observable (main cfg w as_completed)"
proof -
  let ?init = "\<lparr>results = [], down_servers = [], effects = []\<rparr>"
  have "map_sum (\<lambda>err. err) observable (collect cfg (w\<lparr>requests_post := p\<rparr>) as_completed ?init) =
      map_sum (\<lambda>err. err) observable (collect cfg w as_completed ?init)"
    by (rule collect_ignores_webhook) simp
  then show ?thesis
    by (cases "collect cfg (w\<lparr>requests_post := p\<rparr>) as_completed ?init";
        cases "collect cfg w as_completed ?init")
       (simp_all add: main_def observable_def posted_append posted_final_summary
          payloads_ignore_webhook)
qed

text \<open>
  C9. A per-failure alert is posted once. When the webhook answers with a status code
  other than 200, or when the post raises a request exception, \<^verbatim>\<open>send_slack_notification\<close>
  posts that once, prints one line that says so, and returns \<^verbatim>\<open>False\<close>; there is no
  result of the call other than a boolean. What a run determines (its records and which
  of them are down) and the payloads it posts are the same whatever the webhook answers.
\<close>

theorem alert_delivery_failure_contained:
  "(requests_post w (SLACK_WEBHOOK_URL cfg) (alert_data w vm_name ip_address status method)
      = Posted status_code \<and> status_code \<noteq> 200
    \<longrightarrow> send_slack_notification cfg w vm_name ip_address status method =
          (False,
           [SlackPost (SLACK_WEBHOOK_URL cfg) (alert_data w vm_name ip_address status method),
            Print (''   '' @ cross_mark @ '' Slack notification failed. Status: ''
                   @ str_int status_code)]))
   \<and> (requests_post w (SLACK_WEBHOOK_URL cfg) (alert_data w vm_name ip_address status method)
        = RequestException e
      \<longrightarrow> send_slack_notification cfg w vm_name ip_address status method =
            (False,
             [SlackPost (SLACK_WEBHOOK_URL cfg) (alert_data w vm_name ip_address status method),
              Print (''   '' @ cross_mark @ '' Error sending Slack notification: '' @ e)]))
   \<and> posted (snd (send_slack_notification cfg w vm_name ip_address status method)) =
       [alert_data w vm_name ip_address status method]
   \<and> map_sum (\<lambda>err. err) observable (main cfg (w\<lparr>requests_post := p\<rparr>) as_completed) =
       map_sum (\<lambda>err. err) observable (main cfg w as_completed)"
  by (simp add: posted_send_slack_notification main_ignores_webhook)
     (simp add: send_slack_notification_def)

theorem alert_delivery_failure_contained_witness:
  "requests_post webhook_500_world (SLACK_WEBHOOK_URL two_servers)
     (alert_data webhook_500_world ''B'' ''10.0.0.2'' ''DOWN'' (Some ''All checks failed''))
     = Posted 500
   \<and> fst (send_slack_notification two_servers webhook_500_world ''B'' ''10.0.0.2'' ''DOWN''
            (Some ''All checks failed'')) = False
   \<and> requests_post webhook_down_world (SLACK_WEBHOOK_URL two_servers)
       (alert_data webhook_down_world ''B'' ''10.0.0.2'' ''DOWN'' (Some ''All checks failed''))
       = RequestException ''Connection refused''
   \<and> fst (send_slack_notification two_servers webhook_down_world ''B'' ''10.0.0.2'' ''DOWN''
            (Some ''All checks failed'')) = False"
  using
    alert_delivery_failure_contained [of webhook_500_world two_servers "''B''" "''10.0.0.2''"
      "''DOWN''" "Some ''All checks failed''" 500]
    alert_delivery_failure_contained [of webhook_down_world two_servers "''B''" "''10.0.0.2''"
      "''DOWN''" "Some ''All checks failed''" _ "''Connection refused''"]
  by (simp add: webhook_500_world_def webhook_down_world_def ssh_on_A_world_def silent_world_def)

section \<open>Properties of the geocoder\<close>








lemma get_geolocation_found_example:
  "get_geolocation (\<lambda>address. found_response) ''MG Road, Bengaluru, Karnataka, 560001, India'' =
     [(''latitude'', Json (JFloat (129716 / 10000))),
      (''longitude'', Json (JFloat (775946 / 10000))),
      (''formatted_address'', Json (JStr ''MG Road, Bengaluru, Karnataka 560001, India'')),
      (''place_id'', Json (JStr ''ChIJbU60yXAWrjsR4E9-UejD3_g''))]"
  by (simp add: get_geolocation_def get_geolocation_try_def found_response_def
      raise_for_status_def ok_with_results_def found_dict_def then_do_def)

lemma get_geolocation_malformed_example:
  "get_geolocation (\<lambda>address. malformed_response) ''nowhere'' =
     [(''error'', Json (JStr ''UNEXPECTED_ERROR'')),
      (''message'', StrOf (LookupKeyError (JStr ''geometry'')))]"
  by (simp add: get_geolocation_def get_geolocation_try_def malformed_response_def
      raise_for_status_def ok_with_results_def found_dict_def then_do_def)

lemma get_geolocation_zero_results_example:
  "get_geolocation (\<lambda>address. zero_results_response) ''nowhere'' =
     [(''error'', Json (JStr ''ZERO_RESULTS'')),
      (''message'', Json (JStr ''No results found''))]"
  by (simp add: get_geolocation_def get_geolocation_try_def zero_results_response_def
      raise_for_status_def ok_with_results_def not_found_dict_def then_do_def)

lemma get_geolocation_http_error_example:
  "get_geolocation (\<lambda>address. ApiResponse 403 (Inr JNull)) ''nowhere'' =
     [(''error'', Json (JStr ''API_REQUEST_FAILED'')), (''message'', StrOf (HTTPError 403))]"
  by (simp add: get_geolocation_def get_geolocation_try_def raise_for_status_def then_do_def)

lemma get_geolocation_request_failed_example:
  "get_geolocation (\<lambda>address. ApiRaised (RequestError ''timed out'')) ''nowhere'' =
     [(''error'', Json (JStr ''API_REQUEST_FAILED'')),
      (''message'', StrOf (RequestError ''timed out''))]"
  by (simp add: get_geolocation_def get_geolocation_try_def)

end
